theory Spec2Isabelle
  imports Main "HOL-Library.Sublist" "HOL-Library.Char_ord" "HOL-Library.List_Lexorder"
begin

section \<open>Kalpana Core Authority: data model\<close>

text \<open>
  The development follows \<^verbatim>\<open>src/kalpana-core/src/main.py\<close> (the authority daemon) and
  \<^verbatim>\<open>src/kalpana-core/src/ipc_client.py\<close> (the client library).

  Python is dynamically typed: the fields of an \<^verbatim>\<open>ActionRequest\<close> built by
  \<^verbatim>\<open>handle_execute\<close> hold whatever JSON value the payload carried. The payload values are
  therefore kept as JSON values, and the operations that Python refuses on some of them
  (hashing a list, \<^verbatim>\<open>in\<close> on a number) are branches that raise.
\<close>

subsection \<open>JSON values and Python exceptions\<close>

text \<open>
  What \<^verbatim>\<open>json.loads\<close> yields. A float is kept as the text of its literal: no operation
  of the daemon computes with one.
\<close>

datatype json =
    JNull
  | JBool bool
  | JInt int
  | JFloat string
  | JStr string
  | JList "json list"
  | JObj "(string \<times> json) list"

datatype py_error = TypeError | OSError

text \<open>A payload is a Python dict with string keys; \<^verbatim>\<open>d.get(k, default)\<close>:\<close>

type_synonym payload = "string \<rightharpoonup> json"

definition dict_get :: "payload \<Rightarrow> string \<Rightarrow> json \<Rightarrow> json" where
  "dict_get d k dflt = (case d k of None \<Rightarrow> dflt | Some v \<Rightarrow> v)"

text \<open>Python can hash every JSON value but a list and a dict.\<close>

fun hashable :: "json \<Rightarrow> bool" where
  "hashable (JList xs) = False"
| "hashable (JObj kvs) = False"
| "hashable v = True"

text \<open>
  \<^verbatim>\<open>needle in haystack\<close> on two \<^verbatim>\<open>str\<close>: the needle occurs as a contiguous substring.
\<close>

fun str_contains :: "string \<Rightarrow> string \<Rightarrow> bool" where
  "str_contains needle [] = (needle = [])"
| "str_contains needle (c # cs) = (prefix needle (c # cs) \<or> str_contains needle cs)"

subsection \<open>Clock readings\<close>

text \<open>A naive local \<^verbatim>\<open>datetime\<close>, as \<^verbatim>\<open>datetime.now()\<close> returns it.\<close>

record datetime =
  year :: nat
  month :: nat
  day :: nat
  hour :: nat
  minute :: nat
  second :: nat
  microsecond :: nat

text \<open>The ranges the \<^verbatim>\<open>datetime\<close> class enforces, with a four-digit year.\<close>

definition valid_datetime :: "datetime \<Rightarrow> bool" where
  "valid_datetime t =
     (1000 \<le> year t \<and> year t \<le> 9999 \<and> 1 \<le> month t \<and> month t \<le> 12 \<and>
      1 \<le> day t \<and> day t \<le> 31 \<and> hour t \<le> 23 \<and> minute t \<le> 59 \<and> second t \<le> 59)"

subsection \<open>Enums and data classes\<close>

datatype ActionType =
    PROCESS_START
  | PROCESS_KILL
  | FILE_READ
  | FILE_WRITE
  | FILE_DELETE
  | NETWORK_CONNECT
  | NETWORK_LISTEN
  | SYSTEM_COMMAND
  | PRIVILEGE_ESCALATE
  | PACKAGE_INSTALL
  | SERVICE_CONTROL

fun ActionType_value :: "ActionType \<Rightarrow> string" where
  "ActionType_value PROCESS_START = ''process_start''"
| "ActionType_value PROCESS_KILL = ''process_kill''"
| "ActionType_value FILE_READ = ''file_read''"
| "ActionType_value FILE_WRITE = ''file_write''"
| "ActionType_value FILE_DELETE = ''file_delete''"
| "ActionType_value NETWORK_CONNECT = ''network_connect''"
| "ActionType_value NETWORK_LISTEN = ''network_listen''"
| "ActionType_value SYSTEM_COMMAND = ''system_command''"
| "ActionType_value PRIVILEGE_ESCALATE = ''privilege_escalate''"
| "ActionType_value PACKAGE_INSTALL = ''package_install''"
| "ActionType_value SERVICE_CONTROL = ''service_control''"

datatype Decision = ALLOW | DENY | AUDIT | SANDBOX

fun Decision_value :: "Decision \<Rightarrow> string" where
  "Decision_value ALLOW = ''allow''"
| "Decision_value DENY = ''deny''"
| "Decision_value AUDIT = ''audit''"
| "Decision_value SANDBOX = ''sandbox''"

text \<open>
  \<^verbatim>\<open>ActionRequest.id\<close> is the field \<open>id_str\<close> (\<open>id\<close> is the identity function of HOL).
\<close>

record ActionRequest =
  id_str :: string
  action_type :: ActionType
  requestor_pid :: json
  requestor_uid :: json
  requestor_name :: json
  target :: json
  parameters :: json
  timestamp :: datetime

record ActionResponse =
  request_id :: string
  decision :: Decision
  reason :: string
  constraints :: json
  expires_at :: "datetime option"

text \<open>
  \<^verbatim>\<open>AuditEntry.timestamp\<close> is the field \<open>entry_timestamp\<close>, apart from the request's own.
\<close>

record AuditEntry =
  entry_timestamp :: datetime
  request :: ActionRequest
  response :: ActionResponse
  execution_result :: "string option"

text \<open>
  A request as the dataclass declares it: the requester name and the target are
  \<^verbatim>\<open>str\<close>, the process and user ids are \<^verbatim>\<open>int\<close>.
\<close>

fun is_str :: "json \<Rightarrow> bool" where
  "is_str (JStr s) = True"
| "is_str v = False"

fun is_int :: "json \<Rightarrow> bool" where
  "is_int (JInt i) = True"
| "is_int v = False"

definition well_formed :: "ActionRequest \<Rightarrow> bool" where
  "well_formed r =
     (is_str (requestor_name r) \<and> is_str (target r) \<and>
      is_int (requestor_pid r) \<and> is_int (requestor_uid r))"

section \<open>Policy engine\<close>

record PolicyEngine =
  policies :: "json list"
  trusted_processes :: "string set"
  blocked_paths :: "string set"

text \<open>
  \<^verbatim>\<open>PolicyEngine.__init__\<close>; the documents \<^verbatim>\<open>load_policies\<close> read from disk are the
  parameter.
\<close>

definition PolicyEngine_init :: "json list \<Rightarrow> PolicyEngine" where
  "PolicyEngine_init loaded =
     \<lparr>policies = loaded,
      trusted_processes = {''kalpana-shell'', ''kalpana-ui'', ''systemd''},
      blocked_paths = {''/boot'', ''/kalpana/core''}\<rparr>"

text \<open>
  \<^verbatim>\<open>any(blocked in request.target for blocked in self.blocked_paths)\<close>. On a \<^verbatim>\<open>str\<close>
  target \<^verbatim>\<open>in\<close> is the substring test, on a list it is membership, on a dict membership
  among the keys; on any other value it raises \<^verbatim>\<open>TypeError\<close>, at the first path tried.
  With no path to try, \<^verbatim>\<open>any\<close> is false.
\<close>

definition any_blocked :: "string set \<Rightarrow> json \<Rightarrow> py_error + bool" where
  "any_blocked paths tgt =
     (if paths = {} then Inr False
      else case tgt of
          JStr s \<Rightarrow> Inr (\<exists>blocked\<in>paths. str_contains blocked s)
        | JList xs \<Rightarrow> Inr (\<exists>blocked\<in>paths. JStr blocked \<in> set xs)
        | JObj kvs \<Rightarrow> Inr (\<exists>blocked\<in>paths. blocked \<in> fst ` set kvs)
        | _ \<Rightarrow> Inl TypeError)"

text \<open>
  \<^verbatim>\<open>request.requestor_name in self.trusted_processes\<close>: membership in a set of
  \<^verbatim>\<open>str\<close> hashes the name first, so a list or a dict raises \<^verbatim>\<open>TypeError\<close>; a hashable
  value that is not a \<^verbatim>\<open>str\<close> equals no member.
\<close>

definition in_trusted :: "json \<Rightarrow> string set \<Rightarrow> py_error + bool" where
  "in_trusted name trusted =
     (if \<not> hashable name then Inl TypeError
      else Inr (case name of JStr s \<Rightarrow> s \<in> trusted | _ \<Rightarrow> False))"

text \<open>The constructor call \<^verbatim>\<open>ActionResponse(request_id=, decision=, reason=)\<close>.\<close>

definition mk_response :: "ActionRequest \<Rightarrow> Decision \<Rightarrow> string \<Rightarrow> ActionResponse" where
  "mk_response r d why =
     \<lparr>request_id = id_str r, decision = d, reason = why,
      constraints = JObj [], expires_at = None\<rparr>"

text \<open>
  The text of a \<^verbatim>\<open>str\<close> value, as \<^verbatim>\<open>f"Trusted process: {request.requestor_name}"\<close>
  renders it; that branch is reached with a \<^verbatim>\<open>str\<close> name only.
\<close>

fun str_of :: "json \<Rightarrow> string" where
  "str_of (JStr s) = s"
| "str_of v = []"

text \<open>\<^verbatim>\<open>PolicyEngine.evaluate\<close>, in the order of its \<^verbatim>\<open>if\<close> statements.\<close>

definition evaluate :: "PolicyEngine \<Rightarrow> ActionRequest \<Rightarrow> py_error + ActionResponse" where
  "evaluate pe r =
     (case (if action_type r \<in> {FILE_WRITE, FILE_DELETE}
            then any_blocked (blocked_paths pe) (target r) else Inr False) of
        Inl e \<Rightarrow> Inl e
      | Inr True \<Rightarrow>
          Inr (mk_response r DENY ''Protected system path - modification forbidden'')
      | Inr False \<Rightarrow>
          (case in_trusted (requestor_name r) (trusted_processes pe) of
             Inl e \<Rightarrow> Inl e
           | Inr True \<Rightarrow>
               Inr (mk_response r ALLOW (''Trusted process: '' @ str_of (requestor_name r)))
           | Inr False \<Rightarrow>
               if action_type r \<in> {NETWORK_CONNECT, NETWORK_LISTEN}
               then Inr (mk_response r AUDIT ''Network action logged for review'')
               else if action_type r = PRIVILEGE_ESCALATE
               then Inr (mk_response r DENY ''Privilege escalation requires Kalpana approval'')
               else Inr (mk_response r SANDBOX ''Unknown action sandboxed by default'')))"

text \<open>
  The two facts the rules ask of a well-formed request: whether its target contains a
  protected path, and whether its requester is trusted.
\<close>

definition targets_protected :: "PolicyEngine \<Rightarrow> ActionRequest \<Rightarrow> bool" where
  "targets_protected pe r =
     (case target r of
        JStr t \<Rightarrow> (\<exists>blocked\<in>blocked_paths pe. str_contains blocked t)
      | _ \<Rightarrow> False)"

definition is_trusted :: "PolicyEngine \<Rightarrow> ActionRequest \<Rightarrow> bool" where
  "is_trusted pe r =
     (case requestor_name r of JStr n \<Rightarrow> n \<in> trusted_processes pe | _ \<Rightarrow> False)"

text \<open>The decision of an evaluation, when it returned one.\<close>

definition decided :: "py_error + ActionResponse \<Rightarrow> Decision option" where
  "decided res = (case res of Inl e \<Rightarrow> None | Inr resp \<Rightarrow> Some (decision resp))"

section \<open>Request identifiers\<close>

text \<open>Decimal digits of a natural number, as \<^verbatim>\<open>str(n)\<close> and the \<^verbatim>\<open>d\<close> format give them.\<close>

definition digit_char :: "nat \<Rightarrow> char" where
  "digit_char d = ''0123456789'' ! d"

fun dec :: "nat \<Rightarrow> string" where
  "dec n = (if n < 10 then [digit_char n] else dec (n div 10) @ [digit_char (n mod 10)])"

declare dec.simps [simp del]

text \<open>
  \<^verbatim>\<open>format(n, "0wd")\<close> for \<open>n \<ge> 0\<close>: zeros on the left up to the width \<open>w\<close>, and every
  digit of a wider number.
\<close>

definition zfill :: "nat \<Rightarrow> string \<Rightarrow> string" where
  "zfill w s = replicate (w - length s) (CHR ''0'') @ s"

definition format_0d :: "nat \<Rightarrow> nat \<Rightarrow> string" where
  "format_0d w n = zfill w (dec n)"

text \<open>
  \<^verbatim>\<open>strftime('%Y%m%d%H%M%S')\<close>, and \<^verbatim>\<open>isoformat()\<close> for the persisted log. The year is
  padded to four digits, as the Python documentation gives \<^verbatim>\<open>%Y\<close>; platforms differ
  below the year 1000, which \<open>valid_datetime\<close> leaves out.
\<close>

definition strftime_YmdHMS :: "datetime \<Rightarrow> string" where
  "strftime_YmdHMS t =
     format_0d 4 (year t) @ format_0d 2 (month t) @ format_0d 2 (day t) @
     format_0d 2 (hour t) @ format_0d 2 (minute t) @ format_0d 2 (second t)"

definition isoformat :: "datetime \<Rightarrow> string" where
  "isoformat t =
     format_0d 4 (year t) @ ''-'' @ format_0d 2 (month t) @ ''-'' @ format_0d 2 (day t) @
     ''T'' @ format_0d 2 (hour t) @ '':'' @ format_0d 2 (minute t) @ '':'' @
     format_0d 2 (second t) @
     (if microsecond t = 0 then [] else ''.'' @ format_0d 6 (microsecond t))"

text \<open>
  The reading as one number \<open>YYYYMMDDhhmmss\<close>: on valid readings its order is the order of
  the readings.
\<close>

definition stamp :: "datetime \<Rightarrow> nat" where
  "stamp t =
     ((((year t * 100 + month t) * 100 + day t) * 100 + hour t) * 100 + minute t) * 100
       + second t"

text \<open>
  Two devices for reasoning about the formats: the \<open>w\<close> low decimal digits of a number
  (what \<open>format_0d w\<close> gives below \<open>10 ^ w\<close>), and the number a string of digits
  denotes.
\<close>

primrec fixw :: "nat \<Rightarrow> nat \<Rightarrow> string" where
  "fixw 0 n = []"
| "fixw (Suc w) n = fixw w (n div 10) @ [digit_char (n mod 10)]"

definition val_of :: "string \<Rightarrow> nat" where
  "val_of s = foldl (\<lambda>a c. 10 * a + (of_char c - 48)) 0 s"

text \<open>The f-string of \<^verbatim>\<open>_generate_request_id\<close>, for a clock reading and a counter value.\<close>

definition request_id_text :: "datetime \<Rightarrow> nat \<Rightarrow> string" where
  "request_id_text now c = ''REQ-'' @ strftime_YmdHMS now @ ''-'' @ format_0d 6 c"

section \<open>Audit logger\<close>

text \<open>
  The logger's list of entries, and the content of the file at \<^verbatim>\<open>log_path\<close>: one JSON
  object per line written.
\<close>

record AuditLogger =
  entries :: "AuditEntry list"
  log_file :: "json list"

definition AuditLogger_init :: "json list \<Rightarrow> AuditLogger" where
  "AuditLogger_init on_disk = \<lparr>entries = [], log_file = on_disk\<rparr>"

definition log_line :: "AuditEntry \<Rightarrow> json" where
  "log_line entry =
     JObj [(''timestamp'', JStr (isoformat (entry_timestamp entry))),
           (''request_id'', JStr (id_str (request entry))),
           (''action'', JStr (ActionType_value (action_type (request entry)))),
           (''requestor'', requestor_name (request entry)),
           (''target'', target (request entry)),
           (''decision'', JStr (Decision_value (decision (response entry)))),
           (''reason'', JStr (reason (response entry)))]"

text \<open>
  \<^verbatim>\<open>AuditLogger.log\<close>. The append to \<^verbatim>\<open>self.entries\<close> comes first; \<^verbatim>\<open>open\<close> and
  \<^verbatim>\<open>write\<close> stand in no \<^verbatim>\<open>try\<close>, so when the file cannot be opened or written
  (\<open>writable\<close> is false) the \<^verbatim>\<open>OSError\<close> leaves the method.
\<close>

definition log :: "bool \<Rightarrow> AuditEntry \<Rightarrow> AuditLogger \<Rightarrow> (py_error + unit) \<times> AuditLogger" where
  "log writable entry lg =
     (let lg1 = lg\<lparr>entries := entries lg @ [entry]\<rparr>
      in if writable
         then (Inr (), lg1\<lparr>log_file := log_file lg1 @ [log_line entry]\<rparr>)
         else (Inl OSError, lg1))"

text \<open>
  The slice \<^verbatim>\<open>xs[start:]\<close>: a negative start counts from the end and stops at the
  front of the list.
\<close>

definition slice_from :: "int \<Rightarrow> 'a list \<Rightarrow> 'a list" where
  "slice_from start xs =
     (if start < 0 then drop (nat (max (int (length xs) + start) 0)) xs
      else drop (nat start) xs)"

text \<open>
  \<^verbatim>\<open>AuditLogger.query\<close>. An enum member is always true in a condition, so each
  \<^verbatim>\<open>if\<close> asks whether the filter was given. The result is \<^verbatim>\<open>results[-limit:]\<close>; the
  logger is returned as the method leaves it.
\<close>

definition query ::
  "ActionType option \<Rightarrow> Decision option \<Rightarrow> int \<Rightarrow> AuditLogger \<Rightarrow> AuditEntry list \<times> AuditLogger"
where
  "query action_type_filter decision_filter limit lg =
     (let results = entries lg;
          results = (case action_type_filter of
                       None \<Rightarrow> results
                     | Some a \<Rightarrow> filter (\<lambda>e. action_type (request e) = a) results);
          results = (case decision_filter of
                       None \<Rightarrow> results
                     | Some d \<Rightarrow> filter (\<lambda>e. decision (response e) = d) results)
      in (slice_from (- limit) results, lg))"

text \<open>
  The filters in the specification's words: the filters given are conjunctive, an omitted
  filter matches every entry.
\<close>

definition matches_filters :: "ActionType option \<Rightarrow> Decision option \<Rightarrow> AuditEntry \<Rightarrow> bool" where
  "matches_filters a d e =
     ((case a of None \<Rightarrow> True | Some k \<Rightarrow> action_type (request e) = k) \<and>
      (case d of None \<Rightarrow> True | Some x \<Rightarrow> decision (response e) = x))"

section \<open>The authority and its IPC dispatcher\<close>

record KalpanaCore =
  policy :: PolicyEngine
  audit :: AuditLogger
  running :: bool
  request_counter :: nat
  last_decision :: "ActionResponse option"

definition KalpanaCore_init :: "json list \<Rightarrow> json list \<Rightarrow> KalpanaCore" where
  "KalpanaCore_init loaded on_disk =
     \<lparr>policy = PolicyEngine_init loaded, audit = AuditLogger_init on_disk,
      running = False, request_counter = 0, last_decision = None\<rparr>"

text \<open>
  What one call reads from outside the process: the three \<^verbatim>\<open>datetime.now()\<close> readings
  of \<^verbatim>\<open>handle_execute\<close> (for the identifier, the request and the audit entry), whether
  the log file can be appended to, and \<^verbatim>\<open>DEV_MODE\<close>.
\<close>

record env =
  clock_id :: datetime
  clock_request :: datetime
  clock_entry :: datetime
  log_writable :: bool
  dev_mode :: bool

text \<open>\<^verbatim>\<open>KalpanaCore._generate_request_id\<close>: the counter is incremented, then formatted.\<close>

definition generate_request_id :: "datetime \<Rightarrow> KalpanaCore \<Rightarrow> string \<times> KalpanaCore" where
  "generate_request_id now core =
     (let core1 = core\<lparr>request_counter := request_counter core + 1\<rparr>
      in (''REQ-'' @ strftime_YmdHMS now @ ''-'' @ format_0d 6 (request_counter core1),
          core1))"

text \<open>
  The responses of the dispatcher, one constructor for each dict it builds:
  \<^item> \<open>Execute_Response\<close>: \<^verbatim>\<open>request_id\<close>, \<^verbatim>\<open>decision\<close>, \<^verbatim>\<open>reason\<close>, \<^verbatim>\<open>allowed\<close>;
  \<^item> \<open>Status_Response\<close>: \<^verbatim>\<open>status\<close>, \<^verbatim>\<open>uptime\<close>, \<^verbatim>\<open>requests_processed\<close>, \<^verbatim>\<open>mode\<close>,
    \<^verbatim>\<open>policies_loaded\<close>, \<^verbatim>\<open>audit_entries\<close>;
  \<^item> \<open>Audit_Response\<close>: \<^verbatim>\<open>entries\<close>;
  \<^item> \<open>Explain_Response\<close>: \<^verbatim>\<open>request_id\<close>, \<^verbatim>\<open>decision\<close>, \<^verbatim>\<open>reason\<close>, \<^verbatim>\<open>explanation\<close>;
  \<^item> \<open>No_Decision_Response\<close>: \<^verbatim>\<open>explanation\<close>;
  \<^item> \<open>Error_Response\<close>: \<^verbatim>\<open>error\<close>, a message that names the command received
    (\<open>None\<close> when the payload has none).
\<close>

datatype ipc_response =
    Execute_Response string string string bool
  | Status_Response string string nat string nat nat
  | Audit_Response "AuditEntry list"
  | Explain_Response string string string string
  | No_Decision_Response string
  | Error_Response "json option"

text \<open>The \<^verbatim>\<open>ActionRequest(...)\<close> that \<^verbatim>\<open>handle_execute\<close> constructs from the payload.\<close>

definition build_action_request :: "string \<Rightarrow> datetime \<Rightarrow> payload \<Rightarrow> ActionRequest" where
  "build_action_request rid now req =
     \<lparr>id_str = rid,
      action_type = SYSTEM_COMMAND,
      requestor_pid = dict_get req ''pid'' (JInt 0),
      requestor_uid = dict_get req ''uid'' (JInt 0),
      requestor_name = dict_get req ''process'' (JStr ''unknown''),
      target = dict_get req ''command'' (JStr []),
      parameters = dict_get req ''args'' (JObj []),
      timestamp = now\<rparr>"

text \<open>
  \<^verbatim>\<open>KalpanaCore.handle_execute\<close>. An exception of \<^verbatim>\<open>evaluate\<close> or of \<^verbatim>\<open>log\<close> leaves
  the method with the state as changed so far.
\<close>

definition handle_execute ::
  "env \<Rightarrow> payload \<Rightarrow> KalpanaCore \<Rightarrow> (py_error + ipc_response) \<times> KalpanaCore"
where
  "handle_execute ev req core =
     (let (rid, core1) = generate_request_id (clock_id ev) core;
          action_request = build_action_request rid (clock_request ev) req
      in case evaluate (policy core1) action_request of
           Inl e \<Rightarrow> (Inl e, core1)
         | Inr resp \<Rightarrow>
             (let core2 = core1\<lparr>last_decision := Some resp\<rparr>;
                  (logged, lg) =
                    log (log_writable ev)
                      \<lparr>entry_timestamp = clock_entry ev, request = action_request,
                       response = resp, execution_result = None\<rparr>
                      (audit core2);
                  core3 = core2\<lparr>audit := lg\<rparr>
              in case logged of
                   Inl e \<Rightarrow> (Inl e, core3)
                 | Inr u \<Rightarrow>
                     (Inr (Execute_Response (request_id resp) (Decision_value (decision resp))
                             (reason resp) (decision resp \<in> {ALLOW, AUDIT})),
                      core3)))"

definition get_status :: "env \<Rightarrow> KalpanaCore \<Rightarrow> ipc_response" where
  "get_status ev core =
     Status_Response ''online'' ''N/A'' (request_counter core)
       (if dev_mode ev then ''development'' else ''production'')
       (length (policies (policy core))) (length (entries (audit core)))"

definition explain_last_decision :: "KalpanaCore \<Rightarrow> ipc_response" where
  "explain_last_decision core =
     (case last_decision core of
        None \<Rightarrow> No_Decision_Response ''No decisions made yet.''
      | Some d \<Rightarrow>
          Explain_Response (request_id d) (Decision_value (decision d)) (reason d)
            (''The action was '' @ Decision_value (decision d) @ '' because: '' @ reason d))"

text \<open>
  \<^verbatim>\<open>IPCServer.process_request\<close>: \<^verbatim>\<open>request.get("command")\<close> compared with each command
  name in turn.
\<close>

definition process_request ::
  "env \<Rightarrow> payload \<Rightarrow> KalpanaCore \<Rightarrow> (py_error + ipc_response) \<times> KalpanaCore"
where
  "process_request ev req core =
     (let cmd = req ''command''
      in if cmd = Some (JStr ''execute'') then handle_execute ev req core
         else if cmd = Some (JStr ''status'') then (Inr (get_status ev core), core)
         else if cmd = Some (JStr ''audit'')
         then (Inr (Audit_Response (fst (query None None 50 (audit core)))), core)
         else if cmd = Some (JStr ''explain'') then (Inr (explain_last_decision core), core)
         else (Inr (Error_Response cmd), core))"

text \<open>
  The payloads the client library sends: \<^verbatim>\<open>KalpanaIPCClient.execute\<close> (with
  \<^verbatim>\<open>os.getpid()\<close> and \<^verbatim>\<open>os.getuid()\<close> as parameters) and
  \<^verbatim>\<open>KalpanaIPCClient.get_audit_log\<close>.
\<close>

definition client_execute ::
  "string \<Rightarrow> (string \<times> json) list option \<Rightarrow> int \<Rightarrow> int \<Rightarrow> payload"
where
  "client_execute command args pid uid =
     [''command'' \<mapsto> JStr ''execute'',
      ''cmd'' \<mapsto> JStr command,
      ''args'' \<mapsto> (case args of None \<Rightarrow> JObj [] | Some kvs \<Rightarrow> JObj kvs),
      ''pid'' \<mapsto> JInt pid,
      ''uid'' \<mapsto> JInt uid,
      ''process'' \<mapsto> JStr ''kalpana-shell'']"

definition client_get_audit_log :: "int \<Rightarrow> payload" where
  "client_get_audit_log limit = [''command'' \<mapsto> JStr ''audit'', ''limit'' \<mapsto> JInt limit]"

section \<open>Runs\<close>

text \<open>
  Successive \<^verbatim>\<open>execute\<close> calls of one process run. A call that raises ends its own
  connection only (\<^verbatim>\<open>handle_client\<close> catches the exception); the next call finds the
  state as the failed one left it.
\<close>

fun execute_calls :: "(env \<times> payload) list \<Rightarrow> KalpanaCore \<Rightarrow> KalpanaCore" where
  "execute_calls [] core = core"
| "execute_calls ((ev, req) # calls) core =
     execute_calls calls (snd (handle_execute ev req core))"

text \<open>The identifiers generated in one run, given the clock reading of each call.\<close>

fun generate_ids :: "datetime list \<Rightarrow> KalpanaCore \<Rightarrow> string list" where
  "generate_ids [] core = []"
| "generate_ids (now # clock) core =
     fst (generate_request_id now core) # generate_ids clock (snd (generate_request_id now core))"

text \<open>Sample inputs.\<close>

definition sample_clock :: datetime where
  "sample_clock =
     \<lparr>year = 2026, month = 11, day = 3, hour = 15, minute = 4, second = 5,
      microsecond = 0\<rparr>"

definition sample_env :: env where
  "sample_env =
     \<lparr>clock_id = sample_clock, clock_request = sample_clock, clock_entry = sample_clock,
      log_writable = True, dev_mode = True\<rparr>"

definition sample_request :: "ActionType \<Rightarrow> string \<Rightarrow> string \<Rightarrow> ActionRequest" where
  "sample_request kind name tgt =
     \<lparr>id_str = ''REQ-20261103150405-000001'', action_type = kind,
      requestor_pid = JInt 4242, requestor_uid = JInt 1000, requestor_name = JStr name,
      target = JStr tgt, parameters = JObj [], timestamp = sample_clock\<rparr>"

definition sample_entry :: AuditEntry where
  "sample_entry =
     \<lparr>entry_timestamp = sample_clock,
      request = sample_request SYSTEM_COMMAND ''unknown'' ''execute'',
      response = mk_response (sample_request SYSTEM_COMMAND ''unknown'' ''execute'') SANDBOX
                   ''Unknown action sandboxed by default'',
      execution_result = None\<rparr>"

text \<open>The authority after two \<^verbatim>\<open>execute\<close> calls of the client library.\<close>

definition sample_core :: KalpanaCore where
  "sample_core =
     execute_calls
       [(sample_env, client_execute ''ls -la'' None 4242 1000),
        (sample_env, client_execute ''whoami'' None 4242 1000)]
       (KalpanaCore_init [] [])"

text \<open>
  The request that one \<^verbatim>\<open>handle_execute\<close> call hands to the policy engine and logs:
  the constructor call of its first statement, with the identifier just generated.
\<close>

definition call_request :: "env \<Rightarrow> payload \<Rightarrow> KalpanaCore \<Rightarrow> ActionRequest" where
  "call_request ev req core =
     build_action_request (fst (generate_request_id (clock_id ev) core)) (clock_request ev) req"

section \<open>Properties of the policy engine\<close>

text \<open>The substring test is the library's contiguous-sublist relation.\<close>

lemma str_contains_sublist: "str_contains needle hay = sublist needle hay"
  by (induction hay) (auto simp: sublist_Cons_right)

lemma is_str_iff: "is_str v = (\<exists>s. v = JStr s)"
  by (cases v) simp_all

lemma guard_well_formed:
  assumes "is_str (target r)"
  shows "(if action_type r \<in> {FILE_WRITE, FILE_DELETE}
          then any_blocked (blocked_paths pe) (target r) else Inr False) =
         Inr (action_type r \<in> {FILE_WRITE, FILE_DELETE} \<and> targets_protected pe r)"
proof -
  from assms obtain t where "target r = JStr t"
    by (auto simp: is_str_iff)
  then show ?thesis
    by (simp add: any_blocked_def targets_protected_def)
qed

lemma in_trusted_well_formed:
  assumes "is_str (requestor_name r)"
  shows "in_trusted (requestor_name r) (trusted_processes pe) = Inr (is_trusted pe r)"
proof -
  from assms obtain n where "requestor_name r = JStr n"
    by (auto simp: is_str_iff)
  then show ?thesis
    by (simp add: in_trusted_def is_trusted_def)
qed

text \<open>The engine as constructed, and the sample requests.\<close>

lemma init_fields [simp]:
  "trusted_processes (PolicyEngine_init ps) = {''kalpana-shell'', ''kalpana-ui'', ''systemd''}"
  "blocked_paths (PolicyEngine_init ps) = {''/boot'', ''/kalpana/core''}"
  "policies (PolicyEngine_init ps) = ps"
  by (simp_all add: PolicyEngine_init_def)

lemma sample_fields [simp]:
  "action_type (sample_request kind name tgt) = kind"
  "requestor_name (sample_request kind name tgt) = JStr name"
  "target (sample_request kind name tgt) = JStr tgt"
  by (simp_all add: sample_request_def)

lemma sample_well_formed [simp]: "well_formed (sample_request kind name tgt)"
  by (simp add: well_formed_def sample_request_def)

lemma init_protected [simp]:
  "targets_protected (PolicyEngine_init ps) (sample_request kind name tgt) =
     (str_contains ''/boot'' tgt \<or> str_contains ''/kalpana/core'' tgt)"
  by (simp add: targets_protected_def)

lemma init_trusted [simp]:
  "is_trusted (PolicyEngine_init ps) (sample_request kind name tgt) =
     (name \<in> {''kalpana-shell'', ''kalpana-ui'', ''systemd''})"
  by (simp add: is_trusted_def)

text \<open>
  Claim C1, as amended. For every well-formed request \<open>evaluate\<close> returns exactly one
  response, chosen by the first of five rules that matches: (1) a file write or file delete
  whose target contains an entry of the protected-path set as a substring is denied, with
  the reason \<^verbatim>\<open>Protected system path - modification forbidden\<close>; (2) else a requester in
  the trusted-process set is allowed, with the reason \<^verbatim>\<open>Trusted process: \<close> followed by
  its name; (3) else a network connect or listen is audited, with the reason
  \<^verbatim>\<open>Network action logged for review\<close>; (4) else a privilege escalation is denied, with
  the reason \<^verbatim>\<open>Privilege escalation requires Kalpana approval\<close>; (5) else the request
  is sandboxed, with the reason \<^verbatim>\<open>Unknown action sandboxed by default\<close>. The order and
  the decisions are the claim's; the reason texts are the code's, which differ from the
  ones the claim quotes.
\<close>

theorem evaluate_first_match:
  assumes "well_formed r"
  shows "evaluate pe r = Inr
     (if action_type r \<in> {FILE_WRITE, FILE_DELETE} \<and> targets_protected pe r
      then mk_response r DENY ''Protected system path - modification forbidden''
      else if is_trusted pe r
      then mk_response r ALLOW (''Trusted process: '' @ str_of (requestor_name r))
      else if action_type r \<in> {NETWORK_CONNECT, NETWORK_LISTEN}
      then mk_response r AUDIT ''Network action logged for review''
      else if action_type r = PRIVILEGE_ESCALATE
      then mk_response r DENY ''Privilege escalation requires Kalpana approval''
      else mk_response r SANDBOX ''Unknown action sandboxed by default'')"
proof -
  from assms have t: "is_str (target r)" and n: "is_str (requestor_name r)"
    by (simp_all add: well_formed_def)
  show ?thesis
    unfolding evaluate_def guard_well_formed [OF t] in_trusted_well_formed [OF n]
    by simp
qed

text \<open>The five end-to-end scenarios of the specification, one for each rule.\<close>

theorem evaluate_first_match_witness:
  "well_formed (sample_request FILE_WRITE ''unknown-script'' ''/kalpana/core/config'') \<and>
   evaluate (PolicyEngine_init [])
       (sample_request FILE_WRITE ''unknown-script'' ''/kalpana/core/config'') =
     Inr (mk_response (sample_request FILE_WRITE ''unknown-script'' ''/kalpana/core/config'')
            DENY ''Protected system path - modification forbidden'') \<and>
   evaluate (PolicyEngine_init [])
       (sample_request FILE_WRITE ''kalpana-shell'' ''/tmp/note.txt'') =
     Inr (mk_response (sample_request FILE_WRITE ''kalpana-shell'' ''/tmp/note.txt'')
            ALLOW ''Trusted process: kalpana-shell'') \<and>
   evaluate (PolicyEngine_init [])
       (sample_request NETWORK_CONNECT ''unknown-script'' ''1.2.3.4:443'') =
     Inr (mk_response (sample_request NETWORK_CONNECT ''unknown-script'' ''1.2.3.4:443'')
            AUDIT ''Network action logged for review'') \<and>
   evaluate (PolicyEngine_init [])
       (sample_request PRIVILEGE_ESCALATE ''unknown-script'' ''sudo'') =
     Inr (mk_response (sample_request PRIVILEGE_ESCALATE ''unknown-script'' ''sudo'')
            DENY ''Privilege escalation requires Kalpana approval'') \<and>
   evaluate (PolicyEngine_init [])
       (sample_request PACKAGE_INSTALL ''unknown-script'' ''numpy'') =
     Inr (mk_response (sample_request PACKAGE_INSTALL ''unknown-script'' ''numpy'')
            SANDBOX ''Unknown action sandboxed by default'')"
  using
    evaluate_first_match
      [of "sample_request FILE_WRITE ''unknown-script'' ''/kalpana/core/config''"
          "PolicyEngine_init []"]
    evaluate_first_match
      [of "sample_request FILE_WRITE ''kalpana-shell'' ''/tmp/note.txt''"
          "PolicyEngine_init []"]
    evaluate_first_match
      [of "sample_request NETWORK_CONNECT ''unknown-script'' ''1.2.3.4:443''"
          "PolicyEngine_init []"]
    evaluate_first_match
      [of "sample_request PRIVILEGE_ESCALATE ''unknown-script'' ''sudo''"
          "PolicyEngine_init []"]
    evaluate_first_match
      [of "sample_request PACKAGE_INSTALL ''unknown-script'' ''numpy''"
          "PolicyEngine_init []"]
  by simp

text \<open>
  Claim C1 as stated fails on the reason: the denial of a write under
  \<^verbatim>\<open>/kalpana/core\<close> does not carry the text \<^verbatim>\<open>protected system path\<close>.
\<close>

theorem evaluate_reason_counterexample:
  "evaluate (PolicyEngine_init [])
     (sample_request FILE_WRITE ''unknown-script'' ''/kalpana/core/config'') \<noteq>
   Inr (mk_response (sample_request FILE_WRITE ''unknown-script'' ''/kalpana/core/config'')
          DENY ''protected system path'')"
  by (simp add: evaluate_def any_blocked_def mk_response_def)

text \<open>
  Claim C2. A file write or file delete whose target contains a protected path is denied
  also when the requester is in the trusted-process set: the protected-path rule outranks
  the trusted-process rule.
\<close>

theorem protected_path_outranks_trust:
  assumes "action_type r \<in> {FILE_WRITE, FILE_DELETE}"
    and "targets_protected pe r"
    and "is_trusted pe r"
  shows "evaluate pe r =
           Inr (mk_response r DENY ''Protected system path - modification forbidden'') \<and>
         decided (evaluate pe r) = Some DENY"
proof -
  from assms(2) have "is_str (target r)"
    by (cases "target r") (simp_all add: targets_protected_def)
  from guard_well_formed [OF this, of pe] assms(1,2) show ?thesis
    by (simp add: evaluate_def decided_def mk_response_def)
qed

theorem protected_path_outranks_trust_witness:
  "action_type (sample_request FILE_DELETE ''systemd'' ''/boot/vmlinuz'')
     \<in> {FILE_WRITE, FILE_DELETE} \<and>
   targets_protected (PolicyEngine_init [])
     (sample_request FILE_DELETE ''systemd'' ''/boot/vmlinuz'') \<and>
   is_trusted (PolicyEngine_init [])
     (sample_request FILE_DELETE ''systemd'' ''/boot/vmlinuz'') \<and>
   decided (evaluate (PolicyEngine_init [])
     (sample_request FILE_DELETE ''systemd'' ''/boot/vmlinuz'')) = Some DENY"
  using protected_path_outranks_trust
    [of "sample_request FILE_DELETE ''systemd'' ''/boot/vmlinuz''" "PolicyEngine_init []"]
  by (simp add: decided_def mk_response_def)

text \<open>
  Claim C3, as amended. For every request whose action kind is file write or file delete
  and whose target contains a protected path, \<open>evaluate\<close> returns \<open>DENY\<close>, never
  \<open>ALLOW\<close>, whatever the requester name is (trusted, untrusted, or not even a string).
  The restriction to the two modifying action kinds is the code's guard: the comment over
  it speaks of attempts to modify.
\<close>

theorem protected_modification_never_allowed:
  assumes "action_type r \<in> {FILE_WRITE, FILE_DELETE}"
    and "targets_protected pe r"
  shows "decided (evaluate pe (r\<lparr>requestor_name := name\<rparr>)) = Some DENY \<and>
         decided (evaluate pe (r\<lparr>requestor_name := name\<rparr>)) \<noteq> Some ALLOW"
proof -
  let ?r = "r\<lparr>requestor_name := name\<rparr>"
  from assms(2) have "is_str (target ?r)"
    by (cases "target r") (simp_all add: targets_protected_def)
  from guard_well_formed [OF this, of pe] assms show ?thesis
    by (simp add: evaluate_def decided_def mk_response_def targets_protected_def)
qed

theorem protected_modification_never_allowed_witness:
  "action_type (sample_request FILE_WRITE ''unknown-script'' ''/kalpana/core/config'')
     \<in> {FILE_WRITE, FILE_DELETE} \<and>
   targets_protected (PolicyEngine_init [])
     (sample_request FILE_WRITE ''unknown-script'' ''/kalpana/core/config'') \<and>
   decided (evaluate (PolicyEngine_init [])
     ((sample_request FILE_WRITE ''unknown-script'' ''/kalpana/core/config'')
        \<lparr>requestor_name := JStr ''kalpana-ui''\<rparr>)) = Some DENY"
  using protected_modification_never_allowed
    [of "sample_request FILE_WRITE ''unknown-script'' ''/kalpana/core/config''"
        "PolicyEngine_init []" "JStr ''kalpana-ui''"]
  by simp

text \<open>
  Claim C3 as stated fails: a file read of the protected path \<^verbatim>\<open>/boot\<close> by the trusted
  process \<^verbatim>\<open>systemd\<close> is allowed.
\<close>

theorem protected_read_allowed_counterexample:
  "targets_protected (PolicyEngine_init []) (sample_request FILE_READ ''systemd'' ''/boot'') \<and>
   decided (evaluate (PolicyEngine_init []) (sample_request FILE_READ ''systemd'' ''/boot''))
     = Some ALLOW"
  by (simp add: evaluate_def in_trusted_def mk_response_def decided_def)

section \<open>Properties of the execute path\<close>

lemma generate_request_id_fst:
  "fst (generate_request_id now core) =
     ''REQ-'' @ strftime_YmdHMS now @ ''-'' @ format_0d 6 (request_counter core + 1)"
  by (simp add: generate_request_id_def)

lemma generate_request_id_snd:
  "snd (generate_request_id now core) = core\<lparr>request_counter := request_counter core + 1\<rparr>"
  by (simp add: generate_request_id_def)

lemma evaluate_system_command:
  assumes "action_type r = SYSTEM_COMMAND"
  shows "evaluate pe r =
     (if \<not> hashable (requestor_name r) then Inl TypeError
      else if is_trusted pe r
      then Inr (mk_response r ALLOW (''Trusted process: '' @ str_of (requestor_name r)))
      else Inr (mk_response r SANDBOX ''Unknown action sandboxed by default''))"
  using assms
  by (cases "requestor_name r") (simp_all add: evaluate_def in_trusted_def is_trusted_def)

lemma build_action_request_fields [simp]:
  "action_type (build_action_request rid now req) = SYSTEM_COMMAND"
  "requestor_name (build_action_request rid now req) = dict_get req ''process'' (JStr ''unknown'')"
  "target (build_action_request rid now req) = dict_get req ''command'' (JStr [])"
  "id_str (build_action_request rid now req) = rid"
  by (simp_all add: build_action_request_def)

lemma handle_execute_raises:
  assumes "\<not> hashable (dict_get req ''process'' (JStr ''unknown''))"
  shows "handle_execute ev req core =
           (Inl TypeError, core\<lparr>request_counter := request_counter core + 1\<rparr>)"
  using assms
  by (simp add: handle_execute_def generate_request_id_def evaluate_system_command)

lemma handle_execute_evaluated:
  assumes "hashable (dict_get req ''process'' (JStr ''unknown''))"
  shows "\<exists>resp. evaluate (policy core) (call_request ev req core) = Inr resp \<and>
           decision resp \<in> {ALLOW, SANDBOX} \<and>
           fst (handle_execute ev req core) =
             (if log_writable ev
              then Inr (Execute_Response (request_id resp) (Decision_value (decision resp))
                          (reason resp) (decision resp \<in> {ALLOW, AUDIT}))
              else Inl OSError) \<and>
           entries (audit (snd (handle_execute ev req core))) =
             entries (audit core) @
               [\<lparr>entry_timestamp = clock_entry ev, request = call_request ev req core,
                 response = resp, execution_result = None\<rparr>] \<and>
           last_decision (snd (handle_execute ev req core)) = Some resp"
  using assms
  by (simp add: handle_execute_def generate_request_id_def evaluate_system_command
      call_request_def log_def mk_response_def Let_def)

text \<open>
  The identifier in a response is the one just generated, and every call advances the
  counter by one, whether it returns or raises.
\<close>

lemma handle_execute_request_id:
  assumes "fst (handle_execute ev req core) = Inr (Execute_Response rid d why a)"
  shows "rid = fst (generate_request_id (clock_id ev) core)"
proof (cases "hashable (dict_get req ''process'' (JStr ''unknown''))")
  case True
  from handle_execute_evaluated [OF True, of core ev] assms show ?thesis
    by (auto simp: evaluate_system_command call_request_def mk_response_def
        split: if_splits)
next
  case False
  from handle_execute_raises [OF False, of ev core] assms show ?thesis
    by simp
qed

lemma handle_execute_counter:
  "request_counter (snd (handle_execute ev req core)) = request_counter core + 1"
  by (cases "hashable (dict_get req ''process'' (JStr ''unknown''))")
    (simp_all add: handle_execute_def generate_request_id_def evaluate_system_command
      log_def Let_def)

lemma execute_calls_counter:
  "request_counter (execute_calls calls core) = request_counter core + length calls"
proof (induction calls arbitrary: core)
  case Nil
  show ?case by simp
next
  case (Cons c calls)
  obtain ev req where "c = (ev, req)"
    by (cases c)
  with Cons [of "snd (handle_execute ev req core)"] show ?case
    by (simp add: handle_execute_counter)
qed

lemma handle_execute_entries:
  "entries (audit (snd (handle_execute ev req core))) =
     (if hashable (dict_get req ''process'' (JStr ''unknown''))
      then entries (audit core) @
             [\<lparr>entry_timestamp = clock_entry ev, request = call_request ev req core,
               response = projr (evaluate (policy core) (call_request ev req core)),
               execution_result = None\<rparr>]
      else entries (audit core))"
proof (cases "hashable (dict_get req ''process'' (JStr ''unknown''))")
  case True
  from handle_execute_evaluated [OF this, of core ev] True show ?thesis
    by auto
next
  case False
  then show ?thesis
    by (simp add: handle_execute_raises)
qed

lemma Decision_value_allowed:
  "(d \<in> {ALLOW, AUDIT}) = (Decision_value d \<in> {''allow'', ''audit''})"
  "(d \<notin> {ALLOW, AUDIT}) = (Decision_value d \<in> {''deny'', ''sandbox''})"
  by (cases d; simp)+

lemma handle_execute_response:
  assumes "fst (handle_execute ev req core) = Inr resp"
  shows "\<exists>r::ActionResponse. resp = Execute_Response (request_id r) (Decision_value (decision r)) (reason r)
                  (decision r \<in> {ALLOW, AUDIT})"
proof (cases "hashable (dict_get req ''process'' (JStr ''unknown''))")
  case True
  from handle_execute_evaluated [OF True, of core ev] obtain r :: ActionResponse where
    "fst (handle_execute ev req core) =
       (if log_writable ev
        then Inr (Execute_Response (request_id r) (Decision_value (decision r)) (reason r)
                    (decision r \<in> {ALLOW, AUDIT}))
        else Inl OSError)"
    by blast
  with assms have
    "resp = Execute_Response (request_id r) (Decision_value (decision r)) (reason r)
              (decision r \<in> {ALLOW, AUDIT})"
    by (simp split: if_splits)
  then show ?thesis
    by blast
next
  case False
  from handle_execute_raises [OF False, of ev core] assms show ?thesis
    by simp
qed

text \<open>
  Claim C5. Whenever an \<^verbatim>\<open>execute\<close> call returns a response, the response is the dict
  with \<^verbatim>\<open>request_id\<close>, \<^verbatim>\<open>decision\<close>, \<^verbatim>\<open>reason\<close> and \<^verbatim>\<open>allowed\<close>; its decision is
  one of the four enum values, \<^verbatim>\<open>allowed\<close> is true exactly when the decision is
  \<^verbatim>\<open>allow\<close> or \<^verbatim>\<open>audit\<close>, and false exactly when it is \<^verbatim>\<open>deny\<close> or \<^verbatim>\<open>sandbox\<close>.
  (The call returns whenever the payload's \<^verbatim>\<open>process\<close> value is hashable and the log file
  is writable: \<open>handle_execute_evaluated\<close>.)
\<close>
theorem allowed_iff_allow_or_audit:
  assumes "fst (handle_execute ev req core) = Inr resp"
  shows "\<exists>rid d why allowed.
           resp = Execute_Response rid d why allowed \<and>
           d \<in> {''allow'', ''deny'', ''audit'', ''sandbox''} \<and>
           (allowed = (d \<in> {''allow'', ''audit''})) \<and>
           ((\<not> allowed) = (d \<in> {''deny'', ''sandbox''}))"
proof -
  from handle_execute_response [OF assms] obtain r :: ActionResponse where
    r: "resp = Execute_Response (request_id r) (Decision_value (decision r)) (reason r)
                 (decision r \<in> {ALLOW, AUDIT})"
    by blast
  have "Decision_value (decision r) \<in> {''allow'', ''deny'', ''audit'', ''sandbox''}"
    by (cases "decision r") simp_all
  with r Decision_value_allowed [of "decision r"] show ?thesis
    by blast
qed

lemma client_execute_fields [simp]:
  "client_execute c args pid uid ''command'' = Some (JStr ''execute'')"
  "client_execute c args pid uid ''process'' = Some (JStr ''kalpana-shell'')"
  "client_execute c args pid uid ''cmd'' = Some (JStr c)"
  by (simp_all add: client_execute_def)

lemma client_execute_hashable [simp]:
  "hashable (dict_get (client_execute c args pid uid) ''process'' (JStr ''unknown''))"
  by (simp add: dict_get_def)

lemma sample_env_fields [simp]:
  "log_writable sample_env" "dev_mode sample_env"
  "clock_id sample_env = sample_clock" "clock_request sample_env = sample_clock"
  "clock_entry sample_env = sample_clock"
  by (simp_all add: sample_env_def)

lemma KalpanaCore_init_fields [simp]:
  "policy (KalpanaCore_init ps fl) = PolicyEngine_init ps"
  "audit (KalpanaCore_init ps fl) = AuditLogger_init fl"
  "request_counter (KalpanaCore_init ps fl) = 0"
  "last_decision (KalpanaCore_init ps fl) = None"
  "entries (AuditLogger_init fl) = []"
  "log_file (AuditLogger_init fl) = fl"
  by (simp_all add: KalpanaCore_init_def AuditLogger_init_def)

lemma client_call_response:
  "fst (handle_execute sample_env (client_execute c args pid uid) (KalpanaCore_init ps fl)) =
     Inr (Execute_Response
            (''REQ-'' @ strftime_YmdHMS sample_clock @ ''-'' @ format_0d 6 1)
            ''allow'' ''Trusted process: kalpana-shell'' True)"
  by (simp add: handle_execute_def generate_request_id_def evaluate_system_command
      log_def mk_response_def Let_def is_trusted_def dict_get_def)

theorem allowed_iff_allow_or_audit_witness:
  "fst (handle_execute sample_env (client_execute ''ls -la'' None 4242 1000)
          (KalpanaCore_init [] [])) =
     Inr (Execute_Response (''REQ-'' @ strftime_YmdHMS sample_clock @ ''-'' @ format_0d 6 1)
            ''allow'' ''Trusted process: kalpana-shell'' True) \<and>
   (True = (''allow'' \<in> {''allow'', ''audit''})) \<and>
   ((\<not> True) = (''allow'' \<in> {''deny'', ''sandbox''}))"
  using allowed_iff_allow_or_audit
    [of sample_env "client_execute ''ls -la'' None 4242 1000" "KalpanaCore_init [] []"
        "Execute_Response (''REQ-'' @ strftime_YmdHMS sample_clock @ ''-'' @ format_0d 6 1)
            ''allow'' ''Trusted process: kalpana-shell'' True"]
  by (simp add: client_call_response)

lemma build_action_request_cmd:
  "build_action_request rid now (req(''cmd'' \<mapsto> v)) = build_action_request rid now req"
  by (simp add: build_action_request_def dict_get_def)

lemma handle_execute_cmd:
  "handle_execute ev (req(''cmd'' \<mapsto> v)) core = handle_execute ev req core"
  by (simp add: handle_execute_def build_action_request_cmd)

text \<open>
  What one \<^verbatim>\<open>handle_execute\<close> call does with the request it constructs: it hands it to
  \<open>evaluate\<close>; when that raises, the call raises with only the counter advanced; when it
  returns a response, the call stores it as the last decision, appends one audit entry
  holding the request and the response, and answers with the response's fields (or raises
  the \<^verbatim>\<open>OSError\<close> of an unwritable log file).
\<close>

lemma handle_execute_outcome:
  "(case evaluate (policy core) (call_request ev req core) of
      Inl e \<Rightarrow>
        handle_execute ev req core =
          (Inl e, core\<lparr>request_counter := request_counter core + 1\<rparr>)
    | Inr resp \<Rightarrow>
        fst (handle_execute ev req core) =
          (if log_writable ev
           then Inr (Execute_Response (request_id resp) (Decision_value (decision resp))
                       (reason resp) (decision resp \<in> {ALLOW, AUDIT}))
           else Inl OSError) \<and>
        entries (audit (snd (handle_execute ev req core))) =
          entries (audit core) @
            [\<lparr>entry_timestamp = clock_entry ev, request = call_request ev req core,
              response = resp, execution_result = None\<rparr>] \<and>
        last_decision (snd (handle_execute ev req core)) = Some resp)"
  by (simp add: handle_execute_def generate_request_id_def call_request_def log_def Let_def
      split: sum.splits)

lemma call_request_id:
  "id_str (call_request ev req core) =
     ''REQ-'' @ strftime_YmdHMS (clock_id ev) @ ''-'' @ format_0d 6 (request_counter core + 1)"
  by (simp add: call_request_def generate_request_id_def)

lemma client_call_evaluated:
  "evaluate (PolicyEngine_init ps)
     (call_request sample_env (client_execute c args pid uid) (KalpanaCore_init ps fl)) =
   Inr (mk_response
          (call_request sample_env (client_execute c args pid uid) (KalpanaCore_init ps fl))
          ALLOW ''Trusted process: kalpana-shell'')"
  by (simp add: evaluate_system_command call_request_def is_trusted_def dict_get_def)

text \<open>
  Claim C4. For every payload that the dispatcher routes to the execute path (its
  \<^verbatim>\<open>command\<close> field is \<^verbatim>\<open>"execute"\<close>), \<^verbatim>\<open>process_request\<close> is \<^verbatim>\<open>handle_execute\<close>, and
  the request that \<^verbatim>\<open>handle_execute\<close> constructs has the target \<^verbatim>\<open>"execute"\<close>: the target
  is read from the field that was used for dispatch. That request is the one the policy
  engine evaluates: the outcome of the call is the outcome of \<open>evaluate\<close> on it, and when
  \<open>evaluate\<close> returns, the call appends exactly one audit entry, which holds that request
  and the response to it. The \<^verbatim>\<open>cmd\<close> field, under which the client library sends the
  command line, is never read: replacing its value changes neither the response nor the
  state, and every entry the call adds to the audit sequence has the target
  \<^verbatim>\<open>"execute"\<close>.
\<close>

theorem execute_target_is_command_field:
  assumes "req ''command'' = Some (JStr ''execute'')"
  shows "process_request ev req core = handle_execute ev req core \<and>
         target (call_request ev req core) = JStr ''execute'' \<and>
         (case evaluate (policy core) (call_request ev req core) of
            Inl e \<Rightarrow>
              handle_execute ev req core =
                (Inl e, core\<lparr>request_counter := request_counter core + 1\<rparr>)
          | Inr resp \<Rightarrow>
              fst (handle_execute ev req core) =
                (if log_writable ev
                 then Inr (Execute_Response (request_id resp) (Decision_value (decision resp))
                             (reason resp) (decision resp \<in> {ALLOW, AUDIT}))
                 else Inl OSError) \<and>
              entries (audit (snd (handle_execute ev req core))) =
                entries (audit core) @
                  [\<lparr>entry_timestamp = clock_entry ev, request = call_request ev req core,
                    response = resp, execution_result = None\<rparr>] \<and>
              last_decision (snd (handle_execute ev req core)) = Some resp) \<and>
         process_request ev (req(''cmd'' \<mapsto> v)) core = process_request ev req core \<and>
         (\<forall>e \<in> set (entries (audit (snd (process_request ev req core)))).
            e \<in> set (entries (audit core)) \<or> target (request e) = JStr ''execute'')"
proof -
  from assms have p: "process_request ev req core = handle_execute ev req core"
    by (simp add: process_request_def)
  from assms have t: "target (call_request ev req core) = JStr ''execute''"
    by (simp add: call_request_def dict_get_def)
  from assms have c: "process_request ev (req(''cmd'' \<mapsto> v)) core = process_request ev req core"
    by (simp add: process_request_def handle_execute_cmd)
  from t have "\<forall>e \<in> set (entries (audit (snd (handle_execute ev req core)))).
            e \<in> set (entries (audit core)) \<or> target (request e) = JStr ''execute''"
    by (simp add: handle_execute_entries)
  with p t c handle_execute_outcome [where core = core and ev = ev and req = req]
  show ?thesis
    by simp
qed

text \<open>
  The call \<^verbatim>\<open>execute("ls -la")\<close> of the client library: the dispatcher answers it from
  \<^verbatim>\<open>handle_execute\<close>, and the one entry logged holds a request whose target is
  \<^verbatim>\<open>"execute"\<close>, not the command line.
\<close>

theorem execute_target_is_command_field_witness:
  "client_execute ''ls -la'' None 4242 1000 ''command'' = Some (JStr ''execute'') \<and>
   client_execute ''ls -la'' None 4242 1000 ''cmd'' = Some (JStr ''ls -la'') \<and>
   fst (process_request sample_env (client_execute ''ls -la'' None 4242 1000)
          (KalpanaCore_init [] [])) =
     Inr (Execute_Response (''REQ-'' @ strftime_YmdHMS sample_clock @ ''-'' @ format_0d 6 1)
            ''allow'' ''Trusted process: kalpana-shell'' True) \<and>
   entries (audit (snd (process_request sample_env (client_execute ''ls -la'' None 4242 1000)
          (KalpanaCore_init [] [])))) =
     [\<lparr>entry_timestamp = sample_clock,
       request = call_request sample_env (client_execute ''ls -la'' None 4242 1000)
                   (KalpanaCore_init [] []),
       response = mk_response
                    (call_request sample_env (client_execute ''ls -la'' None 4242 1000)
                       (KalpanaCore_init [] []))
                    ALLOW ''Trusted process: kalpana-shell'',
       execution_result = None\<rparr>] \<and>
   target (call_request sample_env (client_execute ''ls -la'' None 4242 1000)
             (KalpanaCore_init [] [])) = JStr ''execute'' \<and>
   target (call_request sample_env (client_execute ''ls -la'' None 4242 1000)
             (KalpanaCore_init [] [])) \<noteq> JStr ''ls -la''"
  using execute_target_is_command_field
    [of "client_execute ''ls -la'' None 4242 1000" sample_env "KalpanaCore_init [] []"]
  by (simp add: client_call_evaluated mk_response_def call_request_id)

section \<open>Properties of the audit logger\<close>

lemma log_entries: "entries (snd (log writable entry lg)) = entries lg @ [entry]"
  by (simp add: log_def Let_def)

lemma log_result: "fst (log writable entry lg) = (if writable then Inr () else Inl OSError)"
  by (simp add: log_def Let_def)

lemma log_file_after:
  "log_file (snd (log writable entry lg)) =
     (if writable then log_file lg @ [log_line entry] else log_file lg)"
  by (simp add: log_def Let_def)

lemma slice_from_suffix: "suffix (slice_from start xs) xs"
  by (simp add: slice_from_def suffix_drop)

lemma slice_from_zero: "slice_from 0 xs = xs"
  by (simp add: slice_from_def)

lemma slice_from_last:
  assumes "0 < k"
  shows "slice_from (- k) xs = drop (length xs - nat k) xs"
proof -
  from assms have "nat (max (int (length xs) - k) 0) = length xs - nat k"
    by linarith
  with assms show ?thesis
    by (simp add: slice_from_def)
qed

lemma slice_from_all:
  assumes "int (length xs) \<le> k"
  shows "slice_from (- k) xs = xs"
proof (cases "0 < k")
  case True
  with assms show ?thesis
    by (simp add: slice_from_last)
next
  case False
  with assms have "k = 0"
    by simp
  then show ?thesis
    by (simp add: slice_from_zero)
qed

lemma query_state: "snd (query a d k lg) = lg"
  by (simp add: query_def Let_def)

lemma query_unfiltered: "fst (query None None k lg) = slice_from (- k) (entries lg)"
  by (simp add: query_def)

lemma query_matching:
  "fst (query a d k lg) = slice_from (- k) (filter (matches_filters a d) (entries lg))"
  by (cases a; cases d) (simp_all add: query_def matches_filters_def [abs_def])

text \<open>What holds of a query with a positive limit.\<close>

lemma query_positive_limit:
  assumes "0 < k"
  shows "fst (query a d k lg) =
           drop (length (filter (matches_filters a d) (entries lg)) - nat k)
             (filter (matches_filters a d) (entries lg))"
    and "int (length (fst (query a d k lg))) \<le> k"
  using assms by (simp_all add: query_matching slice_from_last)

lemma generate_request_id_audit: "audit (snd (generate_request_id now core)) = audit core"
  by (simp add: generate_request_id_def)

lemma process_request_other:
  assumes "req ''command'' \<noteq> Some (JStr ''execute'')"
  shows "snd (process_request ev req core) = core"
  using assms by (simp add: process_request_def Let_def)

lemma execute_calls_prefix:
  "prefix (entries (audit core)) (entries (audit (execute_calls calls core)))"
proof (induction calls arbitrary: core)
  case Nil
  show ?case by simp
next
  case (Cons c calls)
  obtain ev req where c: "c = (ev, req)"
    by (cases c)
  have "prefix (entries (audit core)) (entries (audit (snd (handle_execute ev req core))))"
    by (simp add: handle_execute_entries)
  with Cons [of "snd (handle_execute ev req core)"] c show ?case
    by (auto intro: prefix_order.trans)
qed

lemma execute_calls_length:
  "length (entries (audit (execute_calls calls core))) =
     length (entries (audit core)) +
     length (filter (\<lambda>c. hashable (dict_get (snd c) ''process'' (JStr ''unknown''))) calls)"
proof (induction calls arbitrary: core)
  case Nil
  show ?case by simp
next
  case (Cons c calls)
  obtain ev req where c: "c = (ev, req)"
    by (cases c)
  with Cons [of "snd (handle_execute ev req core)"] show ?case
    by (simp add: handle_execute_entries)
qed

lemma sample_core_entries: "length (entries (audit sample_core)) = 2"
  by (simp add: sample_core_def execute_calls_length del: execute_calls.simps)

text \<open>
  Claim C7, as amended. The in-memory audit sequence is append-only: \<open>log\<close> appends
  exactly one entry at the end, also when the write to the log file fails; \<open>query\<close>
  leaves the logger as it was; generating an identifier and every command of the
  dispatcher other than \<^verbatim>\<open>execute\<close> leave the sequence alone; over any run of
  \<^verbatim>\<open>execute\<close> calls the earlier sequence stays a prefix of the later one. After \<open>N\<close>
  \<^verbatim>\<open>execute\<close> calls whose payload has no \<^verbatim>\<open>process\<close> value or a hashable one (a string,
  a number, a boolean or null) the sequence is exactly \<open>N\<close> entries longer. An unfiltered
  query returns a tail of the sequence in arrival order, and the whole sequence when the
  limit is at least its length.
\<close>

theorem audit_append_only:
  "entries (snd (log writable entry lg)) = entries lg @ [entry] \<and>
   snd (query a d k lg) = lg \<and>
   audit (snd (generate_request_id now core)) = audit core \<and>
   (req ''command'' \<noteq> Some (JStr ''execute'') \<longrightarrow> snd (process_request ev req core) = core) \<and>
   prefix (entries (audit core)) (entries (audit (execute_calls calls core))) \<and>
   ((\<forall>c \<in> set calls. hashable (dict_get (snd c) ''process'' (JStr ''unknown''))) \<longrightarrow>
      length (entries (audit (execute_calls calls core))) =
        length (entries (audit core)) + length calls) \<and>
   suffix (fst (query None None k lg)) (entries lg) \<and>
   (int (length (entries lg)) \<le> k \<longrightarrow> fst (query None None k lg) = entries lg)"
proof -
  have "(\<forall>c \<in> set calls. hashable (dict_get (snd c) ''process'' (JStr ''unknown''))) \<longrightarrow>
      length (entries (audit (execute_calls calls core))) =
        length (entries (audit core)) + length calls"
    by (simp add: execute_calls_length)
  then show ?thesis
    by (simp add: log_entries query_state generate_request_id_audit process_request_other
        execute_calls_prefix query_unfiltered slice_from_suffix slice_from_all)
qed

theorem audit_append_only_witness:
  "client_get_audit_log 10 ''command'' \<noteq> Some (JStr ''execute'') \<and>
   snd (process_request sample_env (client_get_audit_log 10) sample_core) = sample_core \<and>
   length (entries (audit sample_core)) = 2 \<and>
   fst (query None None 100 (audit sample_core)) = entries (audit sample_core)"
  using audit_append_only
    [where req = "client_get_audit_log 10" and ev = sample_env and core = sample_core
       and lg = "audit sample_core" and k = 100 and calls = "[]"]
    audit_append_only
    [where core = "KalpanaCore_init [] []" and
       calls = "[(sample_env, client_execute ''ls -la'' None 4242 1000),
                 (sample_env, client_execute ''whoami'' None 4242 1000)]"
       and req = "Map.empty" and lg = "audit sample_core" and k = 100]
  by (simp add: client_get_audit_log_def sample_core_def)

text \<open>
  Claim C7 as stated fails on the count: one \<^verbatim>\<open>execute\<close> call whose \<^verbatim>\<open>process\<close> value
  is a JSON array raises \<^verbatim>\<open>TypeError\<close> in \<open>evaluate\<close>, before \<open>log\<close>, and the
  sequence is no longer than before.
\<close>

theorem unhashable_process_not_logged_counterexample:
  "length (entries (audit (execute_calls
       [(sample_env, [''command'' \<mapsto> JStr ''execute'', ''process'' \<mapsto> JList []])]
       (KalpanaCore_init [] [])))) \<noteq>
   length (entries (audit (KalpanaCore_init [] []))) + 1"
  by (simp add: handle_execute_raises dict_get_def)

text \<open>
  Claim C9, as amended. \<open>log\<close> always appends the entry to the in-memory sequence. It
  returns normally, with one more line in the log file, when the file can be written; when
  the file cannot be opened or written it raises \<^verbatim>\<open>OSError\<close> to its caller after the
  in-memory append, and the \<^verbatim>\<open>execute\<close> call that logged (one whose evaluation returned)
  raises it in turn, with its entry kept in memory.
\<close>

theorem log_propagates_write_failure:
  "entries (snd (log writable entry lg)) = entries lg @ [entry] \<and>
   fst (log writable entry lg) = (if writable then Inr () else Inl OSError) \<and>
   log_file (snd (log writable entry lg)) =
     (if writable then log_file lg @ [log_line entry] else log_file lg) \<and>
   (\<not> log_writable ev \<and> hashable (dict_get req ''process'' (JStr ''unknown'')) \<longrightarrow>
      fst (handle_execute ev req core) = Inl OSError \<and>
      length (entries (audit (snd (handle_execute ev req core)))) =
        length (entries (audit core)) + 1)"
proof -
  have "fst (handle_execute ev req core) = Inl OSError"
    if "\<not> log_writable ev" and h: "hashable (dict_get req ''process'' (JStr ''unknown''))"
    using handle_execute_evaluated [OF h, of core ev] that(1) by auto
  then show ?thesis
    by (auto simp: log_entries log_result log_file_after handle_execute_entries)
qed

theorem log_propagates_write_failure_witness:
  "fst (log False sample_entry (AuditLogger_init [])) = Inl OSError \<and>
   entries (snd (log False sample_entry (AuditLogger_init []))) = [sample_entry] \<and>
   log_file (snd (log False sample_entry (AuditLogger_init []))) = [] \<and>
   fst (handle_execute (sample_env\<lparr>log_writable := False\<rparr>)
          (client_execute ''ls -la'' None 4242 1000) (KalpanaCore_init [] [])) = Inl OSError \<and>
   length (entries (audit (snd (handle_execute (sample_env\<lparr>log_writable := False\<rparr>)
          (client_execute ''ls -la'' None 4242 1000) (KalpanaCore_init [] []))))) = 1"
  using log_propagates_write_failure
    [of False sample_entry "AuditLogger_init []" "sample_env\<lparr>log_writable := False\<rparr>"
        "client_execute ''ls -la'' None 4242 1000" "KalpanaCore_init [] []"]
  by simp

text \<open>
  Claim C9 as stated fails: with an unwritable log file \<open>log\<close> does not return
  normally.
\<close>

theorem log_raises_counterexample:
  "fst (log False sample_entry (AuditLogger_init [])) \<noteq> Inr ()"
  by (simp add: log_def Let_def)

text \<open>
  Claim C8 at the limit \<open>0\<close>: \<^verbatim>\<open>results[-0:]\<close> is the whole list, so a query with the
  limit \<open>0\<close> on a logger that holds two entries returns both, not at most \<open>0\<close>. For a
  positive limit the claim holds (\<open>query_positive_limit\<close>).
\<close>

theorem query_limit_zero_returns_all:
  "fst (query None None 0 (audit sample_core)) = entries (audit sample_core) \<and>
   length (fst (query None None 0 (audit sample_core))) = 2"
  by (simp add: query_unfiltered slice_from_zero sample_core_entries)

text \<open>The \<^verbatim>\<open>audit\<close> command, whatever else the payload holds.\<close>

lemma process_request_audit:
  assumes "req ''command'' = Some (JStr ''audit'')"
  shows "process_request ev req core =
           (Inr (Audit_Response (fst (query None None 50 (audit core)))), core)"
  using assms by (simp add: process_request_def)

text \<open>
  Claim C10 at a payload that asks for one entry: the dispatcher calls
  \<^verbatim>\<open>query(limit=50)\<close> whatever the payload's \<^verbatim>\<open>limit\<close> is, so the request that the
  client library builds for \<^verbatim>\<open>get_audit_log(1)\<close> is answered with both entries of a
  logger that holds two.
\<close>

theorem audit_command_ignores_limit:
  "fst (process_request sample_env (client_get_audit_log 1) sample_core) =
     Inr (Audit_Response (entries (audit sample_core))) \<and>
   length (entries (audit sample_core)) = 2"
  by (simp add: process_request_def client_get_audit_log_def query_unfiltered slice_from_all
      sample_core_entries)

section \<open>Properties of the request identifiers\<close>

subsection \<open>Digits\<close>

lemma of_char_digit:
  assumes "d < 10"
  shows "of_char (digit_char d) = (48 + d :: nat)"
proof -
  from assms have
    "d = 0 \<or> d = 1 \<or> d = 2 \<or> d = 3 \<or> d = 4 \<or> d = 5 \<or> d = 6 \<or> d = 7 \<or> d = 8 \<or> d = 9"
    by (simp add: numeral_eq_Suc less_Suc_eq)
  then show ?thesis
    by (elim disjE) (simp_all add: digit_char_def)
qed

lemma digit_char_less:
  assumes "d < 10" and "e < 10"
  shows "(digit_char d < digit_char e) = (d < e)"
  using assms by (simp add: less_char_def of_char_digit)

lemma digit_char_eq:
  assumes "d < 10" and "e < 10"
  shows "(digit_char d = digit_char e) = (d = e)"
proof
  assume "digit_char d = digit_char e"
  then have "(of_char (digit_char d) :: nat) = of_char (digit_char e)"
    by simp
  with assms show "d = e"
    by (simp add: of_char_digit)
qed simp

lemma digit_char_not_dash:
  assumes "d < 10"
  shows "digit_char d \<noteq> CHR ''-''"
proof
  assume "digit_char d = CHR ''-''"
  then have "(of_char (digit_char d) :: nat) = of_char (CHR ''-'')"
    by simp
  with assms show False
    by (simp add: of_char_digit)
qed

lemma digit_char_zero: "digit_char 0 = CHR ''0''"
  by (simp add: digit_char_def)

subsection \<open>Decimal numerals\<close>

lemma dec_small: "n < 10 \<Longrightarrow> dec n = [digit_char n]"
  by (simp add: dec.simps)

lemma dec_large: "10 \<le> n \<Longrightarrow> dec n = dec (n div 10) @ [digit_char (n mod 10)]"
  by (subst dec.simps) simp

lemma zfill_pad: "length s < w \<Longrightarrow> zfill w s = CHR ''0'' # zfill (w - 1) s"
  by (cases w) (simp_all add: zfill_def Suc_diff_le)

lemma zfill_done: "w \<le> length s \<Longrightarrow> zfill w s = s"
  by (simp add: zfill_def)

lemma val_of_snoc: "val_of (s @ [c]) = 10 * val_of s + (of_char c - 48)"
  by (simp add: val_of_def)

lemma val_of_dec: "val_of (dec n) = n"
proof (induction n rule: dec.induct)
  case (1 n)
  show ?case
  proof (cases "n < 10")
    case True
    then show ?thesis
      by (simp add: dec_small val_of_def of_char_digit)
  next
    case False
    then have "val_of (dec (n div 10)) = n div 10"
      using "1" by simp
    with False show ?thesis
      by (simp add: dec_large val_of_snoc of_char_digit)
  qed
qed

lemma val_of_zeros: "val_of (replicate k (CHR ''0'') @ s) = val_of s"
proof -
  have "foldl (\<lambda>a c. 10 * a + (of_char c - 48)) 0 (replicate k (CHR ''0'')) = (0::nat)"
    by (induction k) (simp_all add: replicate_append_same [symmetric])
  then show ?thesis
    by (simp add: val_of_def)
qed

lemma val_of_format: "val_of (format_0d w n) = n"
  by (simp add: format_0d_def zfill_def val_of_zeros val_of_dec)

lemma format_0d_inj: "format_0d w n = format_0d w m \<Longrightarrow> n = m"
  by (metis val_of_format)

lemma dec_digits: "c \<in> set (dec n) \<Longrightarrow> \<exists>d<10. c = digit_char d"
proof (induction n rule: dec.induct)
  case (1 n)
  show ?case
  proof (cases "n < 10")
    case True
    with "1.prems" show ?thesis
      by (auto simp: dec_small)
  next
    case False
    from False have "dec n = dec (n div 10) @ [digit_char (n mod 10)]"
      by (intro dec_large) simp
    with "1.prems" have "c \<in> set (dec (n div 10)) \<or> c = digit_char (n mod 10)"
      by auto
    then show ?thesis
    proof
      assume "c \<in> set (dec (n div 10))"
      with "1.IH" False show ?thesis by simp
    next
      assume "c = digit_char (n mod 10)"
      moreover have "n mod 10 < 10" by simp
      ultimately show ?thesis by blast
    qed
  qed
qed

lemma format_0d_digits:
  assumes "c \<in> set (format_0d w n)"
  shows "\<exists>d<10. c = digit_char d"
proof -
  from assms have "c = CHR ''0'' \<or> c \<in> set (dec n)"
    by (auto simp: format_0d_def zfill_def)
  then show ?thesis
  proof
    assume "c = CHR ''0''"
    then have "c = digit_char 0" by (simp add: digit_char_zero)
    then show ?thesis by (intro exI [of _ 0]) simp
  qed (rule dec_digits)
qed

lemma format_0d_no_dash: "CHR ''-'' \<notin> set (format_0d w n)"
  using format_0d_digits digit_char_not_dash by metis

lemma strftime_no_dash: "CHR ''-'' \<notin> set (strftime_YmdHMS t)"
  by (simp add: strftime_YmdHMS_def format_0d_no_dash)

lemma request_id_text_inj:
  assumes "request_id_text t c = request_id_text t' c'"
  shows "c = c'"
proof -
  from assms have
    "''REQ-'' @ (strftime_YmdHMS t @ CHR ''-'' # format_0d 6 c) =
     ''REQ-'' @ (strftime_YmdHMS t' @ CHR ''-'' # format_0d 6 c')"
    unfolding request_id_text_def by simp
  then have
    "strftime_YmdHMS t @ CHR ''-'' # format_0d 6 c =
     strftime_YmdHMS t' @ CHR ''-'' # format_0d 6 c'"
    by (simp only: same_append_eq)
  then have "strftime_YmdHMS t = strftime_YmdHMS t' \<and> format_0d 6 c = format_0d 6 c'"
    by (rule iffD1 [OF append_Cons_eq_iff [OF strftime_no_dash format_0d_no_dash]])
  then show ?thesis
    by (intro format_0d_inj [of 6]) simp
qed

subsection \<open>Fixed-width numerals and their order\<close>

lemma length_fixw [simp]: "length (fixw w n) = w"
  by (induction w arbitrary: n) simp_all

lemma fixw_zero: "fixw w 0 = replicate w (CHR ''0'')"
  by (induction w) (simp_all add: digit_char_zero replicate_append_same)

lemma zfill_snoc: "zfill (Suc w) (s @ [c]) = zfill w s @ [c]"
  by (simp add: zfill_def)

lemma format_0d_fixw_Suc:
  "n < 10 ^ Suc w \<Longrightarrow> format_0d (Suc w) n = fixw (Suc w) n"
proof (induction w arbitrary: n)
  case 0
  then show ?case
    by (simp add: format_0d_def dec_small zfill_def)
next
  case (Suc w)
  show ?case
  proof (cases "n < 10")
    case True
    then show ?thesis
      by (simp add: format_0d_def dec_small zfill_def fixw_zero replicate_append_same)
  next
    case False
    from Suc.prems have "n div 10 < 10 ^ Suc w"
      by (simp add: less_mult_imp_div_less)
    then have "format_0d (Suc w) (n div 10) = fixw (Suc w) (n div 10)"
      by (rule Suc.IH)
    with False show ?thesis
      by (simp add: format_0d_def dec_large zfill_snoc)
  qed
qed

lemma format_0d_fixw:
  assumes "0 < w" and "n < 10 ^ w"
  shows "format_0d w n = fixw w n"
proof -
  from assms(1) obtain v where "w = Suc v"
    by (cases w) simp_all
  with assms(2) show ?thesis
    by (simp only: format_0d_fixw_Suc)
qed

lemma lex_append:
  fixes xs ys :: string
  assumes "length xs = length ys"
  shows "(xs @ us < ys @ vs) = (xs < ys \<or> xs = ys \<and> us < vs)"
  using assms by (induction xs ys rule: list_induct2) auto

lemma div_mod_eq_iff: "(a div 10 = b div 10 \<and> a mod 10 = b mod 10) = (a = (b::nat))"
  by (metis div_mult_mod_eq)

lemma quot_rem_less_iff:
  fixes qa ra qb rb :: nat
  assumes "ra < 10" and "rb < 10"
  shows "(qa < qb \<or> qa = qb \<and> ra < rb) = (10 * qa + ra < 10 * qb + rb)"
  using assms by auto

lemma div_mod_less_iff:
  "(a div 10 < b div 10 \<or> a div 10 = b div 10 \<and> a mod 10 < b mod 10) = (a < (b::nat))"
  using quot_rem_less_iff [of "a mod 10" "b mod 10" "a div 10" "b div 10"]
  by (simp only: mult_div_mod_eq pos_mod_bound zero_less_numeral)

lemma fixw_eq:
  "a < 10 ^ w \<Longrightarrow> b < 10 ^ w \<Longrightarrow> (fixw w a = fixw w b) = (a = b)"
proof (induction w arbitrary: a b)
  case 0
  then show ?case by simp
next
  case (Suc w)
  from Suc.prems have "a div 10 < 10 ^ w" and "b div 10 < 10 ^ w"
    by (simp_all add: less_mult_imp_div_less)
  then have "(fixw w (a div 10) = fixw w (b div 10)) = (a div 10 = b div 10)"
    by (rule Suc.IH)
  then show ?case
    by (simp add: digit_char_eq div_mod_eq_iff)
qed

lemma fixw_less:
  "a < 10 ^ w \<Longrightarrow> b < 10 ^ w \<Longrightarrow> (fixw w a < fixw w b) = (a < b)"
proof (induction w arbitrary: a b)
  case 0
  then show ?case by simp
next
  case (Suc w)
  from Suc.prems have d: "a div 10 < 10 ^ w" "b div 10 < 10 ^ w"
    by (simp_all add: less_mult_imp_div_less)
  then have "(fixw w (a div 10) < fixw w (b div 10)) = (a div 10 < b div 10)"
    by (rule Suc.IH)
  moreover from d have "(fixw w (a div 10) = fixw w (b div 10)) = (a div 10 = b div 10)"
    by (rule fixw_eq)
  ultimately show ?case
    by (simp add: lex_append digit_char_less div_mod_less_iff)
qed

lemma fixw_append:
  "y < 10 ^ b \<Longrightarrow> fixw a x @ fixw b y = fixw (a + b) (x * 10 ^ b + y)"
proof (induction b arbitrary: y)
  case 0
  then show ?case by simp
next
  case (Suc b)
  from Suc.prems have "y div 10 < 10 ^ b"
    by (simp add: less_mult_imp_div_less)
  then have "fixw a x @ fixw b (y div 10) = fixw (a + b) (x * 10 ^ b + y div 10)"
    by (rule Suc.IH)
  moreover have "(x * 10 ^ Suc b + y) div 10 = x * 10 ^ b + y div 10"
    by simp
  moreover have "(x * 10 ^ Suc b + y) mod 10 = y mod 10"
  proof -
    have "(10 * (x * 10 ^ b) + y) mod 10 = y mod 10"
      by (rule mod_mult_self4)
    then show ?thesis
      by (simp add: ac_simps)
  qed
  ultimately show ?case
    by (simp del: power_Suc add: append_assoc [symmetric])
qed

subsection \<open>Identifiers and their order\<close>

lemma strftime_fixw:
  assumes "valid_datetime t"
  shows "strftime_YmdHMS t = fixw 14 (stamp t)"
proof -
  from assms have b:
    "year t < 10 ^ 4" "month t < 10 ^ 2" "day t < 10 ^ 2"
    "hour t < 10 ^ 2" "minute t < 10 ^ 2" "second t < 10 ^ 2"
    by (simp_all add: valid_datetime_def)
  have "fixw 14 (stamp t) =
          fixw 12 ((((year t * 100 + month t) * 100 + day t) * 100 + hour t) * 100 + minute t)
            @ fixw 2 (second t)"
    using fixw_append [OF b(6), of 12] by (simp add: stamp_def)
  also have "fixw 12 ((((year t * 100 + month t) * 100 + day t) * 100 + hour t) * 100 + minute t) =
          fixw 10 (((year t * 100 + month t) * 100 + day t) * 100 + hour t) @ fixw 2 (minute t)"
    using fixw_append [OF b(5), of 10] by simp
  also have "fixw 10 (((year t * 100 + month t) * 100 + day t) * 100 + hour t) =
          fixw 8 ((year t * 100 + month t) * 100 + day t) @ fixw 2 (hour t)"
    using fixw_append [OF b(4), of 8] by simp
  also have "fixw 8 ((year t * 100 + month t) * 100 + day t) =
          fixw 6 (year t * 100 + month t) @ fixw 2 (day t)"
    using fixw_append [OF b(3), of 6] by simp
  also have "fixw 6 (year t * 100 + month t) = fixw 4 (year t) @ fixw 2 (month t)"
    using fixw_append [OF b(2), of 4] by simp
  finally have "fixw 14 (stamp t) =
      fixw 4 (year t) @ fixw 2 (month t) @ fixw 2 (day t) @ fixw 2 (hour t) @
      fixw 2 (minute t) @ fixw 2 (second t)"
    by simp
  with b show ?thesis
    by (simp add: strftime_YmdHMS_def format_0d_fixw)
qed

lemma stamp_bound:
  assumes "valid_datetime t"
  shows "stamp t < 10 ^ 14"
  using assms by (simp add: valid_datetime_def stamp_def)

lemma request_id_text_fixw:
  assumes "valid_datetime t" and "c < 10 ^ 6"
  shows "request_id_text t c = ''REQ-'' @ fixw 14 (stamp t) @ ''-'' @ fixw 6 c"
  using assms by (simp add: request_id_text_def strftime_fixw format_0d_fixw)

lemma request_id_text_less:
  assumes "valid_datetime t" and "valid_datetime t'"
    and "stamp t \<le> stamp t'" and "c < c'" and "c' < 10 ^ 6"
  shows "request_id_text t c < request_id_text t' c'"
proof -
  from assms have c: "c < 10 ^ 6"
    by simp
  have "(fixw 14 (stamp t) @ ''-'' @ fixw 6 c < fixw 14 (stamp t') @ ''-'' @ fixw 6 c') =
        (fixw 14 (stamp t) < fixw 14 (stamp t') \<or>
         fixw 14 (stamp t) = fixw 14 (stamp t') \<and> ''-'' @ fixw 6 c < ''-'' @ fixw 6 c')"
    by (rule lex_append) simp
  also have "\<dots> = (stamp t < stamp t' \<or> stamp t = stamp t' \<and> c < c')"
  proof -
    have "(fixw 14 (stamp t) < fixw 14 (stamp t')) = (stamp t < stamp t')"
      by (intro fixw_less stamp_bound assms(1,2))
    moreover have "(fixw 14 (stamp t) = fixw 14 (stamp t')) = (stamp t = stamp t')"
      by (intro fixw_eq stamp_bound assms(1,2))
    moreover have "(fixw 6 c < fixw 6 c') = (c < c')"
      by (intro fixw_less c assms(5))
    ultimately show ?thesis
      by simp
  qed
  finally have "fixw 14 (stamp t) @ ''-'' @ fixw 6 c < fixw 14 (stamp t') @ ''-'' @ fixw 6 c'"
    using assms(3,4) by auto
  then have "''REQ-'' @ fixw 14 (stamp t) @ ''-'' @ fixw 6 c <
             ''REQ-'' @ fixw 14 (stamp t') @ ''-'' @ fixw 6 c'"
    by (simp add: lex_append)
  with assms(1,2,5) c show ?thesis
    by (simp only: request_id_text_fixw)
qed

subsection \<open>Identifiers of a run\<close>

lemma generate_request_id_text:
  "fst (generate_request_id now core) = request_id_text now (request_counter core + 1)"
  "request_counter (snd (generate_request_id now core)) = request_counter core + 1"
  by (simp_all add: generate_request_id_def request_id_text_def)

lemma length_generate_ids [simp]: "length (generate_ids clock core) = length clock"
  by (induction clock arbitrary: core) simp_all

lemma generate_ids_nth:
  "i < length clock \<Longrightarrow>
   generate_ids clock core ! i = request_id_text (clock ! i) (request_counter core + 1 + i)"
proof (induction clock arbitrary: core i)
  case Nil
  then show ?case by simp
next
  case (Cons now clock)
  show ?case
  proof (cases i)
    case 0
    then show ?thesis
      by (simp add: generate_request_id_text)
  next
    case (Suc j)
    with Cons.prems have "j < length clock"
      by simp
    from Cons.IH [OF this, of "snd (generate_request_id now core)"] Suc show ?thesis
      by (simp add: generate_request_id_text)
  qed
qed

lemma generate_ids_distinct: "distinct (generate_ids clock core)"
proof -
  have "generate_ids clock core ! i \<noteq> generate_ids clock core ! j"
    if "i < length clock" and "j < length clock" and "i \<noteq> j" for i j
  proof
    assume "generate_ids clock core ! i = generate_ids clock core ! j"
    with that(1,2) have
      "request_id_text (clock ! i) (request_counter core + 1 + i) =
       request_id_text (clock ! j) (request_counter core + 1 + j)"
      by (simp add: generate_ids_nth)
    then have "request_counter core + 1 + i = request_counter core + 1 + j"
      by (rule request_id_text_inj)
    with that(3) show False
      by simp
  qed
  then show ?thesis
    by (simp add: distinct_conv_nth)
qed

lemma generate_ids_sorted:
  assumes valid: "\<forall>t \<in> set clock. valid_datetime t"
    and mono: "sorted_wrt (\<lambda>a b. stamp a \<le> stamp b) clock"
    and bound: "request_counter core + length clock \<le> 999999"
  shows "sorted_wrt (<) (generate_ids clock core)"
proof -
  have "generate_ids clock core ! i < generate_ids clock core ! j"
    if "i < j" and "j < length clock" for i j
  proof -
    from that have i: "i < length clock"
      by simp
    from valid i that(2) have "valid_datetime (clock ! i)" and "valid_datetime (clock ! j)"
      by simp_all
    moreover from mono that have "stamp (clock ! i) \<le> stamp (clock ! j)"
      by (simp add: sorted_wrt_iff_nth_less)
    moreover from that(1) have "request_counter core + 1 + i < request_counter core + 1 + j"
      by simp
    moreover from bound that(2) have "request_counter core + 1 + j < 10 ^ 6"
      by simp
    ultimately have
      "request_id_text (clock ! i) (request_counter core + 1 + i) <
       request_id_text (clock ! j) (request_counter core + 1 + j)"
      by (rule request_id_text_less)
    with i that(2) show ?thesis
      by (simp add: generate_ids_nth)
  qed
  then show ?thesis
    by (simp add: sorted_wrt_iff_nth_less)
qed

text \<open>
  Claim C6, as amended. The identifiers generated in one process run are pairwise distinct,
  whatever the clock does and however many are generated. They are lexicographically
  strictly increasing in generation order as long as the clock readings are valid
  four-digit-year readings that do not go backwards (to the second) and the counter stays
  within six digits (at most 999999 identifiers in the run).
\<close>

theorem request_ids_distinct_and_ordered:
  "distinct (generate_ids clock core) \<and>
   ((\<forall>t \<in> set clock. valid_datetime t) \<and>
    sorted_wrt (\<lambda>a b. stamp a \<le> stamp b) clock \<and>
    request_counter core + length clock \<le> 999999 \<longrightarrow>
    sorted_wrt (<) (generate_ids clock core))"
  using generate_ids_distinct generate_ids_sorted by blast

lemma sample_stamp: "strftime_YmdHMS sample_clock = ''20261103150405''"
  by (simp add: strftime_YmdHMS_def sample_clock_def format_0d_def dec_small dec_large
      digit_char_def zfill_pad zfill_done)

theorem request_ids_distinct_and_ordered_witness:
  "valid_datetime sample_clock \<and> valid_datetime (sample_clock\<lparr>second := 6\<rparr>) \<and>
   stamp sample_clock \<le> stamp (sample_clock\<lparr>second := 6\<rparr>) \<and>
   distinct (generate_ids [sample_clock, sample_clock\<lparr>second := 6\<rparr>] (KalpanaCore_init [] [])) \<and>
   sorted_wrt (<)
     (generate_ids [sample_clock, sample_clock\<lparr>second := 6\<rparr>] (KalpanaCore_init [] []))"
  using request_ids_distinct_and_ordered
    [of "[sample_clock, sample_clock\<lparr>second := 6\<rparr>]" "KalpanaCore_init [] []"]
  by (simp add: valid_datetime_def stamp_def sample_clock_def KalpanaCore_init_def)

text \<open>
  Claim C6 as stated fails on the order: within one second the identifier with the
  counter 1000000 follows the one with the counter 999999 and is lexicographically
  smaller, the six-digit padding no longer aligning the two. (The counter stands at 999998
  after that many \<^verbatim>\<open>execute\<close> calls: \<open>execute_calls_counter\<close>.)
\<close>

theorem request_ids_counter_overflow_counterexample:
  "generate_ids [sample_clock, sample_clock]
     ((KalpanaCore_init [] [])\<lparr>request_counter := 999998\<rparr>) =
     [''REQ-20261103150405-999999'', ''REQ-20261103150405-1000000''] \<and>
   ''REQ-20261103150405-1000000'' < ''REQ-20261103150405-999999'' \<and>
   \<not> sorted_wrt (<)
       (generate_ids [sample_clock, sample_clock]
          ((KalpanaCore_init [] [])\<lparr>request_counter := 999998\<rparr>))"
  by (simp add: generate_request_id_def sample_stamp format_0d_def dec_small dec_large
      digit_char_def zfill_pad zfill_done)

end
